theory Spec2Isabelle
  imports Complex_Main "HOL-Library.AList"
begin

section \<open>Python values handled by the two Lambda handlers\<close>

text \<open>
  The handlers of \<^verbatim>\<open>lambda/upload.py\<close> and \<^verbatim>\<open>lambda/download.py\<close> work on decoded JSON:
  the event, the request body and everything handed to boto3 are Python values built from
  \<^verbatim>\<open>None\<close>, booleans, integers, floats, strings, lists and dictionaries with string keys.
  A dictionary is an association list in insertion order with distinct keys, which is what
  a Python \<^verbatim>\<open>dict\<close> is; \<open>AList.update\<close> is item assignment (an existing key keeps its
  place, a new key goes to the end). A finite float is the rational it denotes. Strings
  are byte strings; a byte outside ASCII belongs to the UTF-8 encoding of a character.
  What the interpreter computes from tables or algorithms of its own (the digits of a
  float, the \<^verbatim>\<open>repr\<close> of a string with characters outside ASCII, the rounding of a true
  division) is a parameter of the model.
\<close>

datatype json =
    JNull
  | JBool bool
  | JInt int
  | JFloat rat
  | JStr string
  | JList "json list"
  | JDict "(string \<times> json) list"

text \<open>Truth value testing, as used by \<^verbatim>\<open>not x\<close> and \<^verbatim>\<open>if x:\<close>.\<close>

fun truthy :: "json \<Rightarrow> bool" where
  "truthy JNull = False"
| "truthy (JBool b) = b"
| "truthy (JInt i) = (i \<noteq> 0)"
| "truthy (JFloat q) = (q \<noteq> 0)"
| "truthy (JStr s) = (s \<noteq> [])"
| "truthy (JList xs) = (xs \<noteq> [])"
| "truthy (JDict kvs) = (kvs \<noteq> [])"

text \<open>The name \<^verbatim>\<open>type(x).__name__\<close>, which an \<^verbatim>\<open>AttributeError\<close> quotes.\<close>

fun type_name :: "json \<Rightarrow> string" where
  "type_name JNull = ''NoneType''"
| "type_name (JBool b) = ''bool''"
| "type_name (JInt i) = ''int''"
| "type_name (JFloat q) = ''float''"
| "type_name (JStr s) = ''str''"
| "type_name (JList xs) = ''list''"
| "type_name (JDict kvs) = ''dict''"

subsection \<open>Decimal and hexadecimal digits\<close>

definition digit_char :: "nat \<Rightarrow> char" where
  "digit_char d = char_of (48 + d)"

definition hex_char :: "nat \<Rightarrow> char" where
  "hex_char d = (if d < 10 then char_of (48 + d) else char_of (87 + d))"

fun show_nat :: "nat \<Rightarrow> string" where
  "show_nat n = (if n < 10 then [digit_char n] else show_nat (n div 10) @ [digit_char (n mod 10)])"

declare show_nat.simps [simp del]

definition show_int :: "int \<Rightarrow> string" where
  "show_int i = (if i < 0 then CHR ''-'' # show_nat (nat (- i)) else show_nat (nat i))"

text \<open>\<^verbatim>\<open>'%02d'\<close>, \<^verbatim>\<open>'%04d'\<close> and \<^verbatim>\<open>'%06d'\<close> of a natural number: zeros on the left up to the width.\<close>

definition zero_pad :: "nat \<Rightarrow> nat \<Rightarrow> string" where
  "zero_pad width n = replicate (width - length (show_nat n)) (CHR ''0'') @ show_nat n"

subsection \<open>\<^verbatim>\<open>repr\<close> and \<^verbatim>\<open>str\<close>\<close>

text \<open>
  \<^verbatim>\<open>repr\<close> of an ASCII string: double quotes when the string has a single quote and no
  double quote, single quotes otherwise; the quote in use and the backslash are escaped
  with a backslash, tab, newline and carriage return become \<^verbatim>\<open>\t\<close>, \<^verbatim>\<open>\n\<close>, \<^verbatim>\<open>\r\<close>, every
  other control character becomes \<^verbatim>\<open>\xhh\<close>, and the rest is copied. For a string with a
  character outside ASCII the interpreter consults the Unicode database (a printable
  character is copied, any other is escaped); \<open>ur\<close> stands for what it returns then.
\<close>

definition squote :: char where
  "squote = CHR 0x27"

definition dquote :: char where
  "dquote = CHR 0x22"

definition backslash :: char where
  "backslash = CHR 0x5C"

definition repr_char :: "char \<Rightarrow> char \<Rightarrow> string" where
  "repr_char q c =
     (if c = q \<or> c = backslash then [backslash, c]
      else if c = CHR 0x09 then [backslash, CHR ''t'']
      else if c = CHR 0x0A then [backslash, CHR ''n'']
      else if c = CHR 0x0D then [backslash, CHR ''r'']
      else if (of_char c :: nat) < 32 \<or> (of_char c :: nat) = 127
        then [backslash, CHR ''x'', hex_char (of_char c div 16), hex_char (of_char c mod 16)]
      else [c])"

definition is_ascii :: "string \<Rightarrow> bool" where
  "is_ascii s = list_all (\<lambda>c. (of_char c :: nat) < 128) s"

definition repr_str :: "(string \<Rightarrow> string) \<Rightarrow> string \<Rightarrow> string" where
  "repr_str ur s =
     (if \<not> is_ascii s then ur s
      else if squote \<in> set s \<and> dquote \<notin> set s
      then dquote # concat (map (repr_char dquote) s) @ [dquote]
      else squote # concat (map (repr_char squote) s) @ [squote])"

text \<open>\<^verbatim>\<open>sep.join(parts)\<close>.\<close>

fun join :: "string \<Rightarrow> string list \<Rightarrow> string" where
  "join sep [] = []"
| "join sep [p] = p"
| "join sep (p # q # ps) = p @ sep @ join sep (q # ps)"

text \<open>
  \<^verbatim>\<open>repr\<close> of a value. The digits of a float are chosen by the interpreter's shortest
  round-trip algorithm, which is not part of this repository: \<open>fr\<close> stands for it.
\<close>

fun py_repr :: "(rat \<Rightarrow> string) \<Rightarrow> (string \<Rightarrow> string) \<Rightarrow> json \<Rightarrow> string" where
  "py_repr fr ur JNull = ''None''"
| "py_repr fr ur (JBool b) = (if b then ''True'' else ''False'')"
| "py_repr fr ur (JInt i) = show_int i"
| "py_repr fr ur (JFloat q) = fr q"
| "py_repr fr ur (JStr s) = repr_str ur s"
| "py_repr fr ur (JList xs) = ''['' @ join '', '' (map (py_repr fr ur) xs) @ '']''"
| "py_repr fr ur (JDict kvs) =
     ''{'' @ join '', '' (map (\<lambda>kv. repr_str ur (fst kv) @ '': '' @ py_repr fr ur (snd kv)) kvs) @ ''}''"

text \<open>\<^verbatim>\<open>str(x)\<close>, which is also what an f-string field \<^verbatim>\<open>{x}\<close> inserts.\<close>

definition py_str :: "(rat \<Rightarrow> string) \<Rightarrow> (string \<Rightarrow> string) \<Rightarrow> json \<Rightarrow> string" where
  "py_str fr ur v = (case v of JStr s \<Rightarrow> s | _ \<Rightarrow> py_repr fr ur v)"

text \<open>\<^verbatim>\<open>needle in haystack\<close> on strings: the needle occurs as a contiguous run.\<close>

fun starts_with :: "string \<Rightarrow> string \<Rightarrow> bool" where
  "starts_with [] s = True"
| "starts_with (n # ns) [] = False"
| "starts_with (n # ns) (c # cs) = (n = c \<and> starts_with ns cs)"

fun str_contains :: "string \<Rightarrow> string \<Rightarrow> bool" where
  "str_contains needle [] = (needle = [])"
| "str_contains needle (c # cs) = (starts_with needle (c # cs) \<or> str_contains needle cs)"

section \<open>The clock\<close>

text \<open>
  A naive \<^verbatim>\<open>datetime\<close>, as \<^verbatim>\<open>datetime.utcnow()\<close> returns it. \<^verbatim>\<open>strftime('%Y/%m/%d/%H%M%S')\<close>
  writes the year in four digits and the other fields in two; \<^verbatim>\<open>isoformat()\<close> writes
  \<^verbatim>\<open>YYYY-MM-DDTHH:MM:SS\<close>, followed by \<^verbatim>\<open>.ffffff\<close> when the microsecond is not zero.
  (For a year below 1000 the C library decides how \<^verbatim>\<open>%Y\<close> is padded; the clock of a running
  function is far from there.)
\<close>

record datetime =
  dt_year :: nat
  dt_month :: nat
  dt_day :: nat
  dt_hour :: nat
  dt_minute :: nat
  dt_second :: nat
  dt_microsecond :: nat

definition strftime_key :: "datetime \<Rightarrow> string" where
  "strftime_key d =
     zero_pad 4 (dt_year d) @ ''/'' @ zero_pad 2 (dt_month d) @ ''/'' @ zero_pad 2 (dt_day d) @ ''/'' @
     zero_pad 2 (dt_hour d) @ zero_pad 2 (dt_minute d) @ zero_pad 2 (dt_second d)"

definition isoformat :: "datetime \<Rightarrow> string" where
  "isoformat d =
     zero_pad 4 (dt_year d) @ ''-'' @ zero_pad 2 (dt_month d) @ ''-'' @ zero_pad 2 (dt_day d) @ ''T'' @
     zero_pad 2 (dt_hour d) @ '':'' @ zero_pad 2 (dt_minute d) @ '':'' @ zero_pad 2 (dt_second d) @
     (if dt_microsecond d = 0 then [] else ''.'' @ zero_pad 6 (dt_microsecond d))"

section \<open>Exceptions, configuration and collaborators\<close>

text \<open>
  An exception caught by a handler is either botocore's \<^verbatim>\<open>ClientError\<close>, with the code of
  \<^verbatim>\<open>e.response['Error']['Code']\<close> and the text of \<^verbatim>\<open>str(e)\<close>, or any other \<^verbatim>\<open>Exception\<close>
  with its text.
\<close>

datatype exn =
    ClientError string string
  | OtherException string

text \<open>The module-level settings read from the environment when the module is loaded.\<close>

record config =
  BUCKET_NAME :: string
  EXPIRATION_TIME :: int
  MAX_FILE_SIZE :: int
  ALLOWED_CONTENT_TYPES :: "string list"
  KMS_KEY_ID :: string

text \<open>
  What the interpreter and its library supply: \<^verbatim>\<open>json.loads\<close> (\<open>Inl\<close> is the text of the
  exception it raises on a string that is not JSON), \<^verbatim>\<open>json.dumps\<close>, the rendering of
  floats and of strings with characters outside ASCII, the true division \<^verbatim>\<open>a / b\<close> of two
  integers (the float nearest to the quotient, or \<open>Inl\<close> with the text of the
  \<^verbatim>\<open>OverflowError\<close> raised when the quotient is beyond the range of a float), and the readings
  of the UTC clock in the order they are taken.
\<close>

record runtime =
  json_loads :: "string \<Rightarrow> string + json"
  json_dumps :: "json \<Rightarrow> string"
  float_repr :: "rat \<Rightarrow> string"
  unicode_repr :: "string \<Rightarrow> string"
  true_divide :: "int \<Rightarrow> int \<Rightarrow> string + rat"
  utc_clock :: "nat \<Rightarrow> datetime"

text \<open>\<^verbatim>\<open>str(x)\<close> as a given runtime computes it.\<close>

abbreviation str_of :: "runtime \<Rightarrow> json \<Rightarrow> string" where
  "str_of rt v \<equiv> py_str (float_repr rt) (unicode_repr rt) v"

text \<open>
  The boto3 S3 client. Each operation returns its result or raises; what it answers is
  decided outside this repository, so it is a parameter.
\<close>

record presigned_post =
  post_url :: string
  post_fields :: "(string \<times> json) list"

record s3_client =
  head_object :: "string \<Rightarrow> json \<Rightarrow> exn + unit"
  generate_presigned_url :: "string \<Rightarrow> (string \<times> json) list \<Rightarrow> int \<Rightarrow> exn + string"
  generate_presigned_post ::
    "string \<Rightarrow> string \<Rightarrow> (string \<times> json) list \<Rightarrow> json list \<Rightarrow> int \<Rightarrow> exn + presigned_post"

text \<open>The calls made on the client, with their arguments, in order.\<close>

datatype s3_call =
    HeadObject string json
  | GeneratePresignedUrl string "(string \<times> json) list" int
  | GeneratePresignedPost string string "(string \<times> json) list" "json list" int

text \<open>
  What one invocation changes outside itself: how many times the clock has been read, the
  calls made on the S3 client, and the lines printed.
\<close>

record world =
  clock_reads :: nat
  s3_calls :: "s3_call list"
  stdout :: "string list"

definition utcnow :: "runtime \<Rightarrow> world \<Rightarrow> datetime \<times> world" where
  "utcnow rt w = (utc_clock rt (clock_reads w), w\<lparr>clock_reads := Suc (clock_reads w)\<rparr>)"

definition call_s3 :: "s3_call \<Rightarrow> world \<Rightarrow> world" where
  "call_s3 c w = w\<lparr>s3_calls := s3_calls w @ [c]\<rparr>"

definition print :: "string \<Rightarrow> world \<Rightarrow> world" where
  "print line w = w\<lparr>stdout := stdout w @ [line]\<rparr>"

section \<open>The response envelopes\<close>

text \<open>\<^verbatim>\<open>success_response\<close> and \<^verbatim>\<open>error_response\<close>, the same in both modules.\<close>

record response =
  statusCode :: int
  headers :: "(string \<times> string) list"
  body :: string

definition success_response :: "runtime \<Rightarrow> json \<Rightarrow> response" where
  "success_response rt data =
     \<lparr>statusCode = 200,
      headers = [(''Content-Type'', ''application/json''),
                 (''Access-Control-Allow-Origin'', ''*''),
                 (''Access-Control-Allow-Headers'', ''Content-Type''),
                 (''Access-Control-Allow-Methods'', ''POST'')],
      body = json_dumps rt data\<rparr>"

definition error_response :: "runtime \<Rightarrow> int \<Rightarrow> string \<Rightarrow> response" where
  "error_response rt status_code message =
     \<lparr>statusCode = status_code,
      headers = [(''Content-Type'', ''application/json''),
                 (''Access-Control-Allow-Origin'', ''*'')],
      body = json_dumps rt (JDict [(''error'', JStr message)])\<rparr>"

section \<open>Parsing the event\<close>

text \<open>
  \<^verbatim>\<open>x.get\<close> and \<^verbatim>\<open>x.items\<close> exist on dictionaries only; on any other value the attribute
  lookup raises \<^verbatim>\<open>AttributeError\<close>.
\<close>

definition attribute_error :: "json \<Rightarrow> string \<Rightarrow> exn" where
  "attribute_error v attr =
     OtherException ([squote] @ type_name v @ [squote] @ '' object has no attribute '' @
                     [squote] @ attr @ [squote])"

definition dict_get :: "(string \<times> json) list \<Rightarrow> string \<Rightarrow> json \<Rightarrow> json" where
  "dict_get kvs k dflt = (case map_of kvs k of Some v \<Rightarrow> v | None \<Rightarrow> dflt)"

definition py_get :: "json \<Rightarrow> string \<Rightarrow> json \<Rightarrow> exn + json" where
  "py_get d k dflt =
     (case d of
        JDict kvs \<Rightarrow> Inr (dict_get kvs k dflt)
      | _ \<Rightarrow> Inl (attribute_error d ''get''))"

definition py_items :: "json \<Rightarrow> exn + (string \<times> json) list" where
  "py_items d = (case d of JDict kvs \<Rightarrow> Inr kvs | _ \<Rightarrow> Inl (attribute_error d ''items''))"

text \<open>\<^verbatim>\<open>d[k]\<close>: a missing key raises \<^verbatim>\<open>KeyError\<close>, whose text is the \<^verbatim>\<open>repr\<close> of the key.\<close>

definition py_item :: "runtime \<Rightarrow> (string \<times> json) list \<Rightarrow> string \<Rightarrow> exn + json" where
  "py_item rt kvs k =
     (case map_of kvs k of
        Some v \<Rightarrow> Inr v
      | None \<Rightarrow> Inl (OtherException (repr_str (unicode_repr rt) k)))"

text \<open>
  Lines 35 to 38 of \<^verbatim>\<open>upload.py\<close> and 25 to 28 of \<^verbatim>\<open>download.py\<close>: the request is the
  event's \<^verbatim>\<open>body\<close>, decoded when it is a string, or the event itself when it has no \<^verbatim>\<open>body\<close>.
  The event is the dictionary the Lambda runtime passes.
\<close>

definition request_body :: "runtime \<Rightarrow> (string \<times> json) list \<Rightarrow> exn + json" where
  "request_body rt event =
     (case map_of event ''body'' of
        Some (JStr s) \<Rightarrow> (case json_loads rt s of Inl msg \<Rightarrow> Inl (OtherException msg) | Inr v \<Rightarrow> Inr v)
      | Some b \<Rightarrow> Inr b
      | None \<Rightarrow> Inr (JDict event))"

section \<open>\<^verbatim>\<open>upload.py\<close>\<close>

text \<open>
  \<^verbatim>\<open>x in ALLOWED_CONTENT_TYPES\<close> for the configured list of strings: equality with one of its
  members, which only a string has.
\<close>

definition in_allowed :: "json \<Rightarrow> string list \<Rightarrow> bool" where
  "in_allowed v allowed = (case v of JStr s \<Rightarrow> s \<in> set allowed | _ \<Rightarrow> False)"

text \<open>Lines 53 and 54: the key, from a clock reading and the file name.\<close>

definition upload_object_key :: "runtime \<Rightarrow> datetime \<Rightarrow> json \<Rightarrow> string" where
  "upload_object_key rt now filename =
     ''uploads/'' @ strftime_key now @ ''/'' @ str_of rt filename"

text \<open>
  Lines 57 to 64: the form fields, from the content type, a clock reading and the items of
  the caller's metadata, assigned one after the other.
\<close>

definition upload_fields :: "runtime \<Rightarrow> json \<Rightarrow> datetime \<Rightarrow> (string \<times> json) list \<Rightarrow> (string \<times> json) list" where
  "upload_fields rt content_type now items =
     fold (\<lambda>(key, value) fields.
             AList.update (''x-amz-meta-'' @ key) (JStr (str_of rt value)) fields)
       items
       [(''Content-Type'', content_type),
        (''x-amz-meta-uploaded-at'', JStr (isoformat now))]"

text \<open>Lines 67 to 71: the policy conditions; the third takes its value from the fields.\<close>

definition upload_conditions :: "config \<Rightarrow> json \<Rightarrow> json \<Rightarrow> json list" where
  "upload_conditions cfg content_type uploaded_at =
     [JDict [(''Content-Type'', content_type)],
      JList [JStr ''content-length-range'', JInt 1, JInt (MAX_FILE_SIZE cfg)],
      JDict [(''x-amz-meta-uploaded-at'', uploaded_at)]]"

text \<open>
  Lines 75 to 83, run when \<^verbatim>\<open>KMS_KEY_ID\<close> is not empty: two more fields; the conditions
  whose \<^verbatim>\<open>str\<close> mentions \<^verbatim>\<open>x-amz-server-side-encryption\<close> are dropped and two are appended.
\<close>

definition kms_fields :: "config \<Rightarrow> (string \<times> json) list \<Rightarrow> (string \<times> json) list" where
  "kms_fields cfg form_fields =
     AList.update ''x-amz-server-side-encryption-aws-kms-key-id'' (JStr (KMS_KEY_ID cfg))
       (AList.update ''x-amz-server-side-encryption'' (JStr ''aws:kms'') form_fields)"

definition kms_conditions :: "config \<Rightarrow> runtime \<Rightarrow> json list \<Rightarrow> json list" where
  "kms_conditions cfg rt conditions =
     filter (\<lambda>c. \<not> str_contains ''x-amz-server-side-encryption'' (str_of rt c)) conditions
     @ [JDict [(''x-amz-server-side-encryption'', JStr ''aws:kms'')]]
     @ [JDict [(''x-amz-server-side-encryption-aws-kms-key-id'', JStr (KMS_KEY_ID cfg))]]"

text \<open>
  The body of the \<^verbatim>\<open>try\<close> block of \<^verbatim>\<open>lambda_handler\<close> (lines 34 to 100): \<open>Inr\<close> is the
  response it returns, \<open>Inl\<close> the exception that leaves it. The statements are in the
  order of the source, so the world records what had happened when an exception is raised.
  The payload of line 94 is built before \<^verbatim>\<open>success_response\<close> is called, so the division of
  line 99 can still raise after the POST has been presigned.
\<close>

definition upload_try ::
  "config \<Rightarrow> runtime \<Rightarrow> s3_client \<Rightarrow> (string \<times> json) list \<Rightarrow> world \<Rightarrow> (exn + response) \<times> world"
where
  "upload_try cfg rt s3 event w =
    (case request_body rt event of
       Inl e \<Rightarrow> (Inl e, w)
     | Inr request \<Rightarrow>
    (case py_get request ''filename'' JNull of
       Inl e \<Rightarrow> (Inl e, w)
     | Inr filename \<Rightarrow>
    (case py_get request ''content_type'' (JStr ''application/octet-stream'') of
       Inl e \<Rightarrow> (Inl e, w)
     | Inr content_type \<Rightarrow>
    (case py_get request ''metadata'' (JDict []) of
       Inl e \<Rightarrow> (Inl e, w)
     | Inr metadata \<Rightarrow>
    if \<not> truthy filename then (Inr (error_response rt 400 ''filename is required''), w)
    else if ALLOWED_CONTENT_TYPES cfg \<noteq> [] \<and> \<not> in_allowed content_type (ALLOWED_CONTENT_TYPES cfg)
    then (Inr (error_response rt 400
                 (''Content type '' @ str_of rt content_type @ '' not allowed'')), w)
    else
      let (now1, w1) = utcnow rt w;
          object_key = upload_object_key rt now1 filename;
          (now2, w2) = utcnow rt w1
      in
    (case py_items metadata of
       Inl e \<Rightarrow> (Inl e, w2)
     | Inr items \<Rightarrow>
      let fields1 = upload_fields rt content_type now2 items in
    (case py_item rt fields1 ''x-amz-meta-uploaded-at'' of
       Inl e \<Rightarrow> (Inl e, w2)
     | Inr uploaded_at \<Rightarrow>
      let conditions0 = upload_conditions cfg content_type uploaded_at;
          fields2 = (if KMS_KEY_ID cfg \<noteq> [] then kms_fields cfg fields1 else fields1);
          conditions1 = (if KMS_KEY_ID cfg \<noteq> [] then kms_conditions cfg rt conditions0 else conditions0);
          w3 = call_s3 (GeneratePresignedPost (BUCKET_NAME cfg) object_key fields2 conditions1
                          (EXPIRATION_TIME cfg)) w2
      in
    (case generate_presigned_post s3 (BUCKET_NAME cfg) object_key fields2 conditions1 (EXPIRATION_TIME cfg) of
       Inl e \<Rightarrow> (Inl e, w3)
     | Inr presigned \<Rightarrow>
    (case true_divide rt (MAX_FILE_SIZE cfg) (1024 * 1024) of
       Inl overflow \<Rightarrow> (Inl (OtherException overflow), w3)
     | Inr max_file_size_mb \<Rightarrow>
        (Inr (success_response rt
                (JDict [(''upload_url'', JStr (post_url presigned)),
                        (''fields'', JDict (post_fields presigned)),
                        (''object_key'', JStr object_key),
                        (''expires_in'', JInt (EXPIRATION_TIME cfg)),
                        (''max_file_size_mb'', JFloat max_file_size_mb)])),
         w3)))))))))"

text \<open>
  \<^verbatim>\<open>lambda_handler\<close> of \<^verbatim>\<open>upload.py\<close>: the \<^verbatim>\<open>try\<close> block with its two \<^verbatim>\<open>except\<close> clauses
  (lines 102 to 107). The \<^verbatim>\<open>context\<close> argument is never read.
\<close>

definition upload_lambda_handler ::
  "config \<Rightarrow> runtime \<Rightarrow> s3_client \<Rightarrow> (string \<times> json) list \<Rightarrow> world \<Rightarrow> response \<times> world"
where
  "upload_lambda_handler cfg rt s3 event w =
    (case upload_try cfg rt s3 event w of
       (Inr r, w') \<Rightarrow> (r, w')
     | (Inl (ClientError code text), w') \<Rightarrow>
         (error_response rt 500 (''Error generating presigned URL: '' @ text),
          print (''Error generating presigned URL: '' @ text) w')
     | (Inl (OtherException text), w') \<Rightarrow>
         (error_response rt 500 (''Unexpected error: '' @ text),
          print (''Unexpected error: '' @ text) w'))"

section \<open>\<^verbatim>\<open>download.py\<close>\<close>

text \<open>
  The body of the \<^verbatim>\<open>try\<close> block of \<^verbatim>\<open>lambda_handler\<close> (lines 24 to 66), with the inner
  \<^verbatim>\<open>try\<close> around \<^verbatim>\<open>head_object\<close>: a \<^verbatim>\<open>ClientError\<close> with code \<^verbatim>\<open>'404'\<close> returns the 404
  envelope, any other one is raised again, and an exception of another class passes through.
\<close>

definition download_try ::
  "config \<Rightarrow> runtime \<Rightarrow> s3_client \<Rightarrow> (string \<times> json) list \<Rightarrow> world \<Rightarrow> (exn + response) \<times> world"
where
  "download_try cfg rt s3 event w =
    (case request_body rt event of
       Inl e \<Rightarrow> (Inl e, w)
     | Inr request \<Rightarrow>
    (case py_get request ''object_key'' JNull of
       Inl e \<Rightarrow> (Inl e, w)
     | Inr object_key \<Rightarrow>
    (case py_get request ''response_content_disposition'' JNull of
       Inl e \<Rightarrow> (Inl e, w)
     | Inr response_content_disposition \<Rightarrow>
    if \<not> truthy object_key then (Inr (error_response rt 400 ''object_key is required''), w)
    else
      let w1 = call_s3 (HeadObject (BUCKET_NAME cfg) object_key) w in
    (case head_object s3 (BUCKET_NAME cfg) object_key of
       Inl (ClientError code text) \<Rightarrow>
         if code = ''404'' then (Inr (error_response rt 404 ''Object not found''), w1)
         else (Inl (ClientError code text), w1)
     | Inl (OtherException text) \<Rightarrow> (Inl (OtherException text), w1)
     | Inr u \<Rightarrow>
      let params0 = [(''Bucket'', JStr (BUCKET_NAME cfg)), (''Key'', object_key)];
          params = (if truthy response_content_disposition
                    then AList.update ''ResponseContentDisposition'' response_content_disposition params0
                    else params0);
          w2 = call_s3 (GeneratePresignedUrl ''get_object'' params (EXPIRATION_TIME cfg)) w1
      in
    (case generate_presigned_url s3 ''get_object'' params (EXPIRATION_TIME cfg) of
       Inl e \<Rightarrow> (Inl e, w2)
     | Inr download_url \<Rightarrow>
        (Inr (success_response rt
                (JDict [(''download_url'', JStr download_url),
                        (''object_key'', object_key),
                        (''expires_in'', JInt (EXPIRATION_TIME cfg))])),
         w2))))))"

text \<open>
  \<^verbatim>\<open>lambda_handler\<close> of \<^verbatim>\<open>download.py\<close>: the \<^verbatim>\<open>try\<close> block with its two \<^verbatim>\<open>except\<close> clauses
  (lines 68 to 73).
\<close>

definition download_lambda_handler ::
  "config \<Rightarrow> runtime \<Rightarrow> s3_client \<Rightarrow> (string \<times> json) list \<Rightarrow> world \<Rightarrow> response \<times> world"
where
  "download_lambda_handler cfg rt s3 event w =
    (case download_try cfg rt s3 event w of
       (Inr r, w') \<Rightarrow> (r, w')
     | (Inl (ClientError code text), w') \<Rightarrow>
         (error_response rt 500 (''Error generating presigned URL: '' @ text),
          print (''Error generating presigned URL: '' @ text) w')
     | (Inl (OtherException text), w') \<Rightarrow>
         (error_response rt 500 (''Unexpected error: '' @ text),
          print (''Unexpected error: '' @ text) w'))"

section \<open>A sample deployment\<close>

text \<open>
  A concrete configuration, runtime and S3 client on which the handlers can be run. The
  clock reads 12:00:00.999999 on 13 February 2024 first and 12:00:01 from then on. The
  stand-in for \<^verbatim>\<open>json.loads\<close> decodes the empty object and rejects every other string with
  the text Python gives for a string that does not start a JSON value; the one for
  \<^verbatim>\<open>json.dumps\<close> writes a value the way Python prints it; floats are written as their
  integer part followed by \<^verbatim>\<open>.0\<close>, which is right for the whole numbers the samples meet;
  a string with characters outside ASCII is put between single quotes; a true division
  gives the exact quotient, which is the float when the quotient is one, as 10.0 is.
  The bucket holds one object, \<^verbatim>\<open>k\<close>; presigning always succeeds.
\<close>

definition sample_clock :: "nat \<Rightarrow> datetime" where
  "sample_clock n =
     (if n = 0
      then \<lparr>dt_year = 2024, dt_month = 2, dt_day = 13, dt_hour = 12, dt_minute = 0,
            dt_second = 0, dt_microsecond = 999999\<rparr>
      else \<lparr>dt_year = 2024, dt_month = 2, dt_day = 13, dt_hour = 12, dt_minute = 0,
            dt_second = 1, dt_microsecond = 0\<rparr>)"

definition sample_float_repr :: "rat \<Rightarrow> string" where
  "sample_float_repr q = show_int \<lfloor>q\<rfloor> @ ''.0''"

definition sample_unicode_repr :: "string \<Rightarrow> string" where
  "sample_unicode_repr s = squote # s @ [squote]"

definition sample_true_divide :: "int \<Rightarrow> int \<Rightarrow> string + rat" where
  "sample_true_divide a b = Inr (of_int a / of_int b)"

definition sample_loads :: "string \<Rightarrow> string + json" where
  "sample_loads s =
     (if s = ''{}'' then Inr (JDict []) else Inl ''Expecting value: line 1 column 1 (char 0)'')"

definition sample_runtime :: runtime where
  "sample_runtime =
     \<lparr>json_loads = sample_loads,
      json_dumps = py_repr sample_float_repr sample_unicode_repr,
      float_repr = sample_float_repr,
      unicode_repr = sample_unicode_repr,
      true_divide = sample_true_divide,
      utc_clock = sample_clock\<rparr>"

definition sample_s3 :: s3_client where
  "sample_s3 =
     \<lparr>head_object = (\<lambda>bucket key.
         if key = JStr ''k'' then Inr ()
         else Inl (ClientError ''404''
                ''An error occurred (404) when calling the HeadObject operation: Not Found'')),
      generate_presigned_url = (\<lambda>operation params expires. Inr ''https://fortress.s3.amazonaws.com/k''),
      generate_presigned_post = (\<lambda>bucket key form_fields conditions expires.
         Inr \<lparr>post_url = ''https://fortress.s3.amazonaws.com/'', post_fields = form_fields\<rparr>)\<rparr>"

definition sample_config :: config where
  "sample_config =
     \<lparr>BUCKET_NAME = ''fortress'',
      EXPIRATION_TIME = 300,
      MAX_FILE_SIZE = 10 * 1024 * 1024,
      ALLOWED_CONTENT_TYPES = [],
      KMS_KEY_ID = []\<rparr>"

definition pdf_only_config :: config where
  "pdf_only_config = sample_config\<lparr>ALLOWED_CONTENT_TYPES := [''application/pdf'']\<rparr>"

definition kms_config :: config where
  "kms_config = sample_config\<lparr>KMS_KEY_ID := ''key-1''\<rparr>"

definition world0 :: world where
  "world0 = \<lparr>clock_reads = 0, s3_calls = [], stdout = []\<rparr>"

section \<open>Facts about the building blocks\<close>

lemma digit_char_values:
  "digit_char 0 = CHR ''0''" "digit_char (Suc 0) = CHR ''1''" "digit_char 1 = CHR ''1''"
  "digit_char 2 = CHR ''2''" "digit_char 3 = CHR ''3''" "digit_char 4 = CHR ''4''"
  "digit_char 5 = CHR ''5''" "digit_char 6 = CHR ''6''" "digit_char 7 = CHR ''7''"
  "digit_char 8 = CHR ''8''" "digit_char 9 = CHR ''9''"
  by code_simp+

lemma py_get_dict [simp]: "py_get (JDict kvs) k d = Inr (dict_get kvs k d)"
  by (simp add: py_get_def)

lemma py_items_dict [simp]: "py_items (JDict kvs) = Inr kvs"
  by (simp add: py_items_def)

text \<open>Assigning further items never removes a key, and leaves the other keys alone.\<close>

lemma fold_update_keeps:
  "map_of fs k \<noteq> None \<Longrightarrow>
   map_of (fold (\<lambda>(key, value) fields. AList.update (f key) (g value) fields) items fs) k \<noteq> None"
  by (induction items arbitrary: fs) (auto simp: update_conv')

lemma fold_update_other:
  "k \<notin> f ` fst ` set items \<Longrightarrow>
   map_of (fold (\<lambda>(key, value) fields. AList.update (f key) (g value) fields) items fs) k = map_of fs k"
  by (induction items arbitrary: fs) (auto simp: update_conv')

text \<open>So the lookup of line 70 never raises \<^verbatim>\<open>KeyError\<close>.\<close>

lemma upload_fields_tag_present:
  "\<exists>v. py_item rt (upload_fields rt ct now items) ''x-amz-meta-uploaded-at'' = Inr v"
proof -
  have "map_of (upload_fields rt ct now items) ''x-amz-meta-uploaded-at'' \<noteq> None"
    unfolding upload_fields_def by (rule fold_update_keeps) simp
  then show ?thesis by (auto simp: py_item_def)
qed

text \<open>Rules that evaluate the text functions on numerals.\<close>

lemmas eval_text = zero_pad_def show_nat.simps show_int_def digit_char_values

text \<open>A string contains each of its contiguous parts.\<close>

lemma starts_with_self: "starts_with n (n @ s)"
  by (induction n) auto

lemma str_contains_middle: "str_contains n (a @ n @ b)"
proof (induction a)
  case Nil
  show ?case by (cases "n @ b") (use starts_with_self [of n b] in auto)
next
  case (Cons c a)
  then show ?case by simp
qed

text \<open>The sample deployment, field by field, and its clock readings as text.\<close>

lemma sample_runtime_sel:
  "json_loads sample_runtime = sample_loads"
  "json_dumps sample_runtime = py_repr sample_float_repr sample_unicode_repr"
  "float_repr sample_runtime = sample_float_repr"
  "unicode_repr sample_runtime = sample_unicode_repr"
  "true_divide sample_runtime = sample_true_divide"
  "utc_clock sample_runtime = sample_clock"
  by (simp_all add: sample_runtime_def)

lemma sample_config_sel:
  "BUCKET_NAME sample_config = ''fortress''"
  "EXPIRATION_TIME sample_config = 300"
  "MAX_FILE_SIZE sample_config = 10485760"
  "ALLOWED_CONTENT_TYPES sample_config = []"
  "KMS_KEY_ID sample_config = []"
  by (simp_all add: sample_config_def)

lemma pdf_only_config_sel:
  "BUCKET_NAME pdf_only_config = ''fortress''"
  "EXPIRATION_TIME pdf_only_config = 300"
  "MAX_FILE_SIZE pdf_only_config = 10485760"
  "ALLOWED_CONTENT_TYPES pdf_only_config = [''application/pdf'']"
  "KMS_KEY_ID pdf_only_config = []"
  by (simp_all add: pdf_only_config_def sample_config_def)

lemma kms_config_sel:
  "BUCKET_NAME kms_config = ''fortress''"
  "EXPIRATION_TIME kms_config = 300"
  "MAX_FILE_SIZE kms_config = 10485760"
  "ALLOWED_CONTENT_TYPES kms_config = []"
  "KMS_KEY_ID kms_config = ''key-1''"
  by (simp_all add: kms_config_def sample_config_def)

lemma world0_sel:
  "clock_reads world0 = 0" "s3_calls world0 = []" "stdout world0 = []"
  by (simp_all add: world0_def)

lemmas sample_sel = sample_runtime_sel sample_config_sel pdf_only_config_sel kms_config_sel world0_sel

lemma sample_presigned_post:
  "generate_presigned_post sample_s3 bucket key form_fields conditions expires =
     Inr \<lparr>post_url = ''https://fortress.s3.amazonaws.com/'', post_fields = form_fields\<rparr>"
  by (simp add: sample_s3_def)

lemma sample_key0: "strftime_key (sample_clock 0) = ''2024/02/13/120000''"
  by (simp add: strftime_key_def sample_clock_def eval_text)

lemma sample_iso0: "isoformat (sample_clock 0) = ''2024-02-13T12:00:00.999999''"
  by (simp add: isoformat_def sample_clock_def eval_text)

lemma sample_iso1: "isoformat (sample_clock (Suc 0)) = ''2024-02-13T12:00:01''"
  by (simp add: isoformat_def sample_clock_def eval_text)

section \<open>Rejections before any collaborator is called\<close>

text \<open>
  Claim C3, as the specification states it, fails: the identifier is also missing when the
  event carries a \<^verbatim>\<open>body\<close> that is \<^verbatim>\<open>null\<close> (or any value that is not an object). Then
  \<^verbatim>\<open>body.get\<close> raises \<^verbatim>\<open>AttributeError\<close>, which the last \<^verbatim>\<open>except\<close> clause turns into the
  500 envelope, not the 400 one.
\<close>

theorem null_body_counterexample:
  "statusCode (fst (upload_lambda_handler sample_config sample_runtime sample_s3
       [(''body'', JNull)] world0)) = 500 \<and>
   body (fst (upload_lambda_handler sample_config sample_runtime sample_s3
       [(''body'', JNull)] world0)) =
     json_dumps sample_runtime (JDict [(''error'', JStr
       (''Unexpected error: '' @ [squote] @ ''NoneType'' @ [squote] @
        '' object has no attribute '' @ [squote] @ ''get'' @ [squote]))]) \<and>
   statusCode (fst (download_lambda_handler sample_config sample_runtime sample_s3
       [(''body'', JNull)] world0)) = 500 \<and>
   body (fst (download_lambda_handler sample_config sample_runtime sample_s3
       [(''body'', JNull)] world0)) =
     json_dumps sample_runtime (JDict [(''error'', JStr
       (''Unexpected error: '' @ [squote] @ ''NoneType'' @ [squote] @
        '' object has no attribute '' @ [squote] @ ''get'' @ [squote]))])"
  by (simp add: upload_lambda_handler_def upload_try_def download_lambda_handler_def
        download_try_def request_body_def py_get_def attribute_error_def error_response_def)

text \<open>
  Claim C3, amended. When the decoded request is a JSON object in which the required
  identifier (\<^verbatim>\<open>filename\<close> for the upload handler, \<^verbatim>\<open>object_key\<close> for the download handler) is
  absent or empty, that is, falsy, the handler returns an envelope with status 400 whose
  body is the encoding of \<^verbatim>\<open>{"error": "<identifier> is required"}\<close>, and the world is the one
  it started from: nothing was asked of the S3 client (no existence check, no
  presigning), the clock was not read and nothing was printed.
\<close>

theorem missing_identifier_is_rejected:
  assumes "request_body rt event = Inr (JDict req)"
  shows "(\<not> truthy (dict_get req ''filename'' JNull) \<longrightarrow>
            statusCode (fst (upload_lambda_handler cfg rt s3 event w)) = 400 \<and>
            body (fst (upload_lambda_handler cfg rt s3 event w)) =
              json_dumps rt (JDict [(''error'', JStr ''filename is required'')]) \<and>
            snd (upload_lambda_handler cfg rt s3 event w) = w) \<and>
         (\<not> truthy (dict_get req ''object_key'' JNull) \<longrightarrow>
            statusCode (fst (download_lambda_handler cfg rt s3 event w)) = 400 \<and>
            body (fst (download_lambda_handler cfg rt s3 event w)) =
              json_dumps rt (JDict [(''error'', JStr ''object_key is required'')]) \<and>
            snd (download_lambda_handler cfg rt s3 event w) = w)"
  using assms
  by (simp add: upload_lambda_handler_def upload_try_def download_lambda_handler_def
        download_try_def error_response_def)

text \<open>An event that carries a content type and neither identifier.\<close>

theorem missing_identifier_is_rejected_witness:
  "statusCode (fst (upload_lambda_handler sample_config sample_runtime sample_s3
       [(''content_type'', JStr ''application/pdf'')] world0)) = 400 \<and>
   body (fst (upload_lambda_handler sample_config sample_runtime sample_s3
       [(''content_type'', JStr ''application/pdf'')] world0)) =
     json_dumps sample_runtime (JDict [(''error'', JStr ''filename is required'')]) \<and>
   snd (upload_lambda_handler sample_config sample_runtime sample_s3
       [(''content_type'', JStr ''application/pdf'')] world0) = world0 \<and>
   statusCode (fst (download_lambda_handler sample_config sample_runtime sample_s3
       [(''content_type'', JStr ''application/pdf'')] world0)) = 400 \<and>
   body (fst (download_lambda_handler sample_config sample_runtime sample_s3
       [(''content_type'', JStr ''application/pdf'')] world0)) =
     json_dumps sample_runtime (JDict [(''error'', JStr ''object_key is required'')]) \<and>
   snd (download_lambda_handler sample_config sample_runtime sample_s3
       [(''content_type'', JStr ''application/pdf'')] world0) = world0"
  using missing_identifier_is_rejected [of sample_runtime
      "[(''content_type'', JStr ''application/pdf'')]"
      "[(''content_type'', JStr ''application/pdf'')]" sample_config sample_s3 world0]
  by (simp add: request_body_def dict_get_def)

text \<open>
  Claim C10. When the event's \<^verbatim>\<open>body\<close> is a string that \<^verbatim>\<open>json.loads\<close> refuses, the exception
  is caught by the last \<^verbatim>\<open>except\<close> clause of either handler: the response has status 500,
  not 400, and its body is the encoding of \<^verbatim>\<open>{"error": "Unexpected error: <text>"}\<close> with the
  text of the exception; the message is printed, and nothing is asked of the S3 client.
\<close>

theorem undecodable_body_is_unexpected_error:
  assumes "map_of event ''body'' = Some (JStr s)" and "json_loads rt s = Inl msg"
  shows "statusCode (fst (upload_lambda_handler cfg rt s3 event w)) = 500 \<and>
         body (fst (upload_lambda_handler cfg rt s3 event w)) =
           json_dumps rt (JDict [(''error'', JStr (''Unexpected error: '' @ msg))]) \<and>
         snd (upload_lambda_handler cfg rt s3 event w) =
           w\<lparr>stdout := stdout w @ [''Unexpected error: '' @ msg]\<rparr> \<and>
         statusCode (fst (download_lambda_handler cfg rt s3 event w)) = 500 \<and>
         body (fst (download_lambda_handler cfg rt s3 event w)) =
           json_dumps rt (JDict [(''error'', JStr (''Unexpected error: '' @ msg))]) \<and>
         snd (download_lambda_handler cfg rt s3 event w) =
           w\<lparr>stdout := stdout w @ [''Unexpected error: '' @ msg]\<rparr>"
  using assms
  by (simp add: upload_lambda_handler_def upload_try_def download_lambda_handler_def
        download_try_def request_body_def print_def error_response_def)

theorem undecodable_body_is_unexpected_error_witness:
  "statusCode (fst (upload_lambda_handler sample_config sample_runtime sample_s3
       [(''body'', JStr ''not json'')] world0)) = 500 \<and>
   body (fst (upload_lambda_handler sample_config sample_runtime sample_s3
       [(''body'', JStr ''not json'')] world0)) =
     json_dumps sample_runtime
       (JDict [(''error'', JStr ''Unexpected error: Expecting value: line 1 column 1 (char 0)'')]) \<and>
   snd (upload_lambda_handler sample_config sample_runtime sample_s3
       [(''body'', JStr ''not json'')] world0) =
     world0\<lparr>stdout := [''Unexpected error: Expecting value: line 1 column 1 (char 0)'']\<rparr> \<and>
   statusCode (fst (download_lambda_handler sample_config sample_runtime sample_s3
       [(''body'', JStr ''not json'')] world0)) = 500 \<and>
   body (fst (download_lambda_handler sample_config sample_runtime sample_s3
       [(''body'', JStr ''not json'')] world0)) =
     json_dumps sample_runtime
       (JDict [(''error'', JStr ''Unexpected error: Expecting value: line 1 column 1 (char 0)'')]) \<and>
   snd (download_lambda_handler sample_config sample_runtime sample_s3
       [(''body'', JStr ''not json'')] world0) =
     world0\<lparr>stdout := [''Unexpected error: Expecting value: line 1 column 1 (char 0)'']\<rparr>"
  using undecodable_body_is_unexpected_error [where event = "[(''body'', JStr ''not json'')]"
      and s = "''not json''" and rt = sample_runtime
      and msg = "''Expecting value: line 1 column 1 (char 0)''"
      and cfg = sample_config and ?s3.0 = sample_s3 and w = world0]
  by (simp add: sample_runtime_sel(1) world0_sel sample_loads_def)

text \<open>
  Claim C5, as the specification states it, fails: the file name is checked first, so a
  request with a content type outside the allow-list and no file name is answered with
  \<^verbatim>\<open>filename is required\<close>, a message that does not name the content type.
\<close>

theorem disallowed_type_without_filename_counterexample:
  "ALLOWED_CONTENT_TYPES pdf_only_config \<noteq> [] \<and>
   \<not> in_allowed (JStr ''application/x-msdownload'') (ALLOWED_CONTENT_TYPES pdf_only_config) \<and>
   statusCode (fst (upload_lambda_handler pdf_only_config sample_runtime sample_s3
       [(''content_type'', JStr ''application/x-msdownload'')] world0)) = 400 \<and>
   body (fst (upload_lambda_handler pdf_only_config sample_runtime sample_s3
       [(''content_type'', JStr ''application/x-msdownload'')] world0)) =
     json_dumps sample_runtime (JDict [(''error'', JStr ''filename is required'')]) \<and>
   \<not> str_contains ''application/x-msdownload'' ''filename is required''"
  by (simp add: upload_lambda_handler_def upload_try_def request_body_def dict_get_def
        in_allowed_def pdf_only_config_sel error_response_def)

text \<open>
  Claim C5, amended. When the decoded request is a JSON object with a non-empty file name,
  the allow-list is not empty and the content type (the request's, or
  \<^verbatim>\<open>application/octet-stream\<close> when it gives none) is not in it, the handler returns an
  envelope with status 400 whose body is the encoding of
  \<^verbatim>\<open>{"error": "Content type <type> not allowed"}\<close>, a message that contains the rejected
  type, and leaves the world as it was: no collaborator is called.
\<close>

theorem disallowed_content_type_is_rejected:
  assumes "request_body rt event = Inr (JDict req)"
    and "truthy (dict_get req ''filename'' JNull)"
    and "ALLOWED_CONTENT_TYPES cfg \<noteq> []"
    and "\<not> in_allowed (dict_get req ''content_type'' (JStr ''application/octet-stream''))
              (ALLOWED_CONTENT_TYPES cfg)"
  shows
   "(let rejected = str_of rt (dict_get req ''content_type'' (JStr ''application/octet-stream''));
         message = ''Content type '' @ rejected @ '' not allowed''
     in statusCode (fst (upload_lambda_handler cfg rt s3 event w)) = 400 \<and>
        body (fst (upload_lambda_handler cfg rt s3 event w)) =
          json_dumps rt (JDict [(''error'', JStr message)]) \<and>
        str_contains rejected message \<and>
        snd (upload_lambda_handler cfg rt s3 event w) = w)"
proof -
  have "upload_lambda_handler cfg rt s3 event w =
           (error_response rt 400
              (''Content type '' @
               str_of rt (dict_get req ''content_type'' (JStr ''application/octet-stream'')) @
               '' not allowed''), w)"
    using assms by (simp add: upload_lambda_handler_def upload_try_def)
  then show ?thesis
    using str_contains_middle [of "str_of rt (dict_get req ''content_type'' (JStr ''application/octet-stream''))"
        "''Content type ''" "'' not allowed''"]
    by (simp add: Let_def error_response_def)
qed

text \<open>Scenario B: \<^verbatim>\<open>x.exe\<close> of type \<^verbatim>\<open>application/x-msdownload\<close> where only PDF is allowed.\<close>

theorem disallowed_content_type_is_rejected_witness:
  "statusCode (fst (upload_lambda_handler pdf_only_config sample_runtime sample_s3
       [(''filename'', JStr ''x.exe''), (''content_type'', JStr ''application/x-msdownload'')] world0)) = 400 \<and>
   body (fst (upload_lambda_handler pdf_only_config sample_runtime sample_s3
       [(''filename'', JStr ''x.exe''), (''content_type'', JStr ''application/x-msdownload'')] world0)) =
     json_dumps sample_runtime
       (JDict [(''error'', JStr ''Content type application/x-msdownload not allowed'')]) \<and>
   str_contains ''application/x-msdownload'' ''Content type application/x-msdownload not allowed'' \<and>
   snd (upload_lambda_handler pdf_only_config sample_runtime sample_s3
       [(''filename'', JStr ''x.exe''), (''content_type'', JStr ''application/x-msdownload'')] world0) = world0"
  using disallowed_content_type_is_rejected [where rt = sample_runtime
      and event = "[(''filename'', JStr ''x.exe''), (''content_type'', JStr ''application/x-msdownload'')]"
      and req = "[(''filename'', JStr ''x.exe''), (''content_type'', JStr ''application/x-msdownload'')]"
      and cfg = pdf_only_config and ?s3.0 = sample_s3 and w = world0]
  by (simp add: request_body_def dict_get_def in_allowed_def py_str_def pdf_only_config_sel Let_def)

section \<open>The download authorization\<close>

text \<open>
  Claim C4. When the decoded request is a JSON object with a non-empty \<^verbatim>\<open>object_key\<close> and
  \<^verbatim>\<open>head_object\<close> raises a \<^verbatim>\<open>ClientError\<close> with code \<^verbatim>\<open>404\<close>, the handler returns an envelope
  with status 404 whose body is the encoding of \<^verbatim>\<open>{"error": "Object not found"}\<close>, and the
  only call made on the S3 client is that \<^verbatim>\<open>head_object\<close>: no URL is presigned.
\<close>

theorem absent_object_is_not_found:
  assumes "request_body rt event = Inr (JDict req)"
    and "truthy (dict_get req ''object_key'' JNull)"
    and "head_object s3 (BUCKET_NAME cfg) (dict_get req ''object_key'' JNull) =
           Inl (ClientError ''404'' reason)"
  shows "statusCode (fst (download_lambda_handler cfg rt s3 event w)) = 404 \<and>
         body (fst (download_lambda_handler cfg rt s3 event w)) =
           json_dumps rt (JDict [(''error'', JStr ''Object not found'')]) \<and>
         snd (download_lambda_handler cfg rt s3 event w) =
           w\<lparr>s3_calls := s3_calls w @
                [HeadObject (BUCKET_NAME cfg) (dict_get req ''object_key'' JNull)]\<rparr>"
  using assms
  by (simp add: download_lambda_handler_def download_try_def call_s3_def error_response_def)

text \<open>Scenario C: a key that the sample bucket does not hold.\<close>

theorem absent_object_is_not_found_witness:
  "statusCode (fst (download_lambda_handler sample_config sample_runtime sample_s3
       [(''object_key'', JStr ''uploads/2024/02/13/120000/doc.pdf'')] world0)) = 404 \<and>
   body (fst (download_lambda_handler sample_config sample_runtime sample_s3
       [(''object_key'', JStr ''uploads/2024/02/13/120000/doc.pdf'')] world0)) =
     json_dumps sample_runtime (JDict [(''error'', JStr ''Object not found'')]) \<and>
   snd (download_lambda_handler sample_config sample_runtime sample_s3
       [(''object_key'', JStr ''uploads/2024/02/13/120000/doc.pdf'')] world0) =
     world0\<lparr>s3_calls := [HeadObject ''fortress'' (JStr ''uploads/2024/02/13/120000/doc.pdf'')]\<rparr>"
  using absent_object_is_not_found [where rt = sample_runtime
      and event = "[(''object_key'', JStr ''uploads/2024/02/13/120000/doc.pdf'')]"
      and req = "[(''object_key'', JStr ''uploads/2024/02/13/120000/doc.pdf'')]"
      and cfg = sample_config and ?s3.0 = sample_s3 and w = world0
      and reason = "''An error occurred (404) when calling the HeadObject operation: Not Found''"]
  by (simp add: request_body_def dict_get_def sample_config_sel world0_sel sample_s3_def)

text \<open>
  Claim C9. When the decoded request is a JSON object with a non-empty \<^verbatim>\<open>object_key\<close> and
  \<^verbatim>\<open>head_object\<close> returns, the handler calls \<^verbatim>\<open>generate_presigned_url\<close> for \<^verbatim>\<open>get_object\<close>
  with the bucket, the key and, exactly when the request supplied a disposition (a value
  that is present and not empty, as line 52 tests it), the entry
  \<^verbatim>\<open>ResponseContentDisposition\<close> holding that value unchanged; otherwise the parameters are
  the bucket and the key alone. When the presigning returns a URL, the response has status
  200 and its body is the encoding of the payload that holds the URL as \<^verbatim>\<open>download_url\<close>,
  beside the key and the expiry.
\<close>

theorem disposition_passed_exactly_when_supplied:
  assumes "request_body rt event = Inr (JDict req)"
    and "truthy (dict_get req ''object_key'' JNull)"
    and "head_object s3 (BUCKET_NAME cfg) (dict_get req ''object_key'' JNull) = Inr ()"
  shows
   "(let object_key = dict_get req ''object_key'' JNull;
         disposition = dict_get req ''response_content_disposition'' JNull;
         params = [(''Bucket'', JStr (BUCKET_NAME cfg)), (''Key'', object_key)] @
                  (if truthy disposition then [(''ResponseContentDisposition'', disposition)] else [])
     in s3_calls (snd (download_lambda_handler cfg rt s3 event w)) =
          s3_calls w @ [HeadObject (BUCKET_NAME cfg) object_key,
                        GeneratePresignedUrl ''get_object'' params (EXPIRATION_TIME cfg)] \<and>
        (\<forall>url. generate_presigned_url s3 ''get_object'' params (EXPIRATION_TIME cfg) = Inr url \<longrightarrow>
           statusCode (fst (download_lambda_handler cfg rt s3 event w)) = 200 \<and>
           body (fst (download_lambda_handler cfg rt s3 event w)) =
             json_dumps rt (JDict [(''download_url'', JStr url),
                                   (''object_key'', object_key),
                                   (''expires_in'', JInt (EXPIRATION_TIME cfg))])))"
  using assms
  by (auto simp add: download_lambda_handler_def download_try_def call_s3_def print_def Let_def
        success_response_def split: sum.split exn.split)

text \<open>Scenario D: the object \<^verbatim>\<open>k\<close> with an attachment file name.\<close>

theorem disposition_passed_exactly_when_supplied_witness:
  "s3_calls (snd (download_lambda_handler sample_config sample_runtime sample_s3
       [(''object_key'', JStr ''k''),
        (''response_content_disposition'', JStr ''attachment; filename=out.pdf'')] world0)) =
     [HeadObject ''fortress'' (JStr ''k''),
      GeneratePresignedUrl ''get_object''
        [(''Bucket'', JStr ''fortress''), (''Key'', JStr ''k''),
         (''ResponseContentDisposition'', JStr ''attachment; filename=out.pdf'')] 300] \<and>
   statusCode (fst (download_lambda_handler sample_config sample_runtime sample_s3
       [(''object_key'', JStr ''k''),
        (''response_content_disposition'', JStr ''attachment; filename=out.pdf'')] world0)) = 200 \<and>
   body (fst (download_lambda_handler sample_config sample_runtime sample_s3
       [(''object_key'', JStr ''k''),
        (''response_content_disposition'', JStr ''attachment; filename=out.pdf'')] world0)) =
     json_dumps sample_runtime
       (JDict [(''download_url'', JStr ''https://fortress.s3.amazonaws.com/k''),
               (''object_key'', JStr ''k''), (''expires_in'', JInt 300)])"
  using disposition_passed_exactly_when_supplied [where rt = sample_runtime
      and event = "[(''object_key'', JStr ''k''),
                    (''response_content_disposition'', JStr ''attachment; filename=out.pdf'')]"
      and req = "[(''object_key'', JStr ''k''),
                  (''response_content_disposition'', JStr ''attachment; filename=out.pdf'')]"
      and cfg = sample_config and ?s3.0 = sample_s3 and w = world0]
  by (simp add: request_body_def dict_get_def sample_config_sel world0_sel sample_s3_def Let_def)

section \<open>The upload authorization\<close>

text \<open>
  What the \<^verbatim>\<open>try\<close> block does for a request that passes both checks and whose metadata
  is a dictionary: two clock readings, one call of \<^verbatim>\<open>generate_presigned_post\<close>, and, when
  that call returns and the division of line 99 gives a float, the success envelope.
\<close>

lemma upload_try_valid:
  fixes cfg rt s3 event w req items ua
  defines "ct \<equiv> dict_get req ''content_type'' (JStr ''application/octet-stream'')"
  defines "object_key \<equiv> upload_object_key rt (utc_clock rt (clock_reads w)) (dict_get req ''filename'' JNull)"
  defines "fields1 \<equiv> upload_fields rt ct (utc_clock rt (Suc (clock_reads w))) items"
  defines "fields2 \<equiv> (if KMS_KEY_ID cfg \<noteq> [] then kms_fields cfg fields1 else fields1)"
  defines "conditions1 \<equiv>
     (if KMS_KEY_ID cfg \<noteq> [] then kms_conditions cfg rt (upload_conditions cfg ct ua)
      else upload_conditions cfg ct ua)"
  defines "w3 \<equiv> call_s3 (GeneratePresignedPost (BUCKET_NAME cfg) object_key fields2 conditions1 (EXPIRATION_TIME cfg))
                  (w\<lparr>clock_reads := Suc (Suc (clock_reads w))\<rparr>)"
  assumes body: "request_body rt event = Inr (JDict req)"
    and name: "truthy (dict_get req ''filename'' JNull)"
    and allowed: "ALLOWED_CONTENT_TYPES cfg = [] \<or> in_allowed ct (ALLOWED_CONTENT_TYPES cfg)"
    and meta: "dict_get req ''metadata'' (JDict []) = JDict items"
    and tag: "py_item rt fields1 ''x-amz-meta-uploaded-at'' = Inr ua"
  shows "upload_try cfg rt s3 event w =
    (case generate_presigned_post s3 (BUCKET_NAME cfg) object_key fields2 conditions1 (EXPIRATION_TIME cfg) of
       Inl e \<Rightarrow> (Inl e, w3)
     | Inr presigned \<Rightarrow>
    (case true_divide rt (MAX_FILE_SIZE cfg) (1024 * 1024) of
       Inl overflow \<Rightarrow> (Inl (OtherException overflow), w3)
     | Inr max_file_size_mb \<Rightarrow>
        (Inr (success_response rt
                (JDict [(''upload_url'', JStr (post_url presigned)),
                        (''fields'', JDict (post_fields presigned)),
                        (''object_key'', JStr object_key),
                        (''expires_in'', JInt (EXPIRATION_TIME cfg)),
                        (''max_file_size_mb'', JFloat max_file_size_mb)])),
         w3)))"
  using body name allowed meta tag
  unfolding upload_try_def w3_def conditions1_def fields2_def fields1_def object_key_def ct_def
  by (auto simp add: utcnow_def Let_def split: sum.split)

lemma upload_handler_valid_calls:
  assumes "request_body rt event = Inr (JDict req)"
    and "truthy (dict_get req ''filename'' JNull)"
    and "ALLOWED_CONTENT_TYPES cfg = [] \<or>
         in_allowed (dict_get req ''content_type'' (JStr ''application/octet-stream'')) (ALLOWED_CONTENT_TYPES cfg)"
    and "dict_get req ''metadata'' (JDict []) = JDict items"
    and "py_item rt (upload_fields rt (dict_get req ''content_type'' (JStr ''application/octet-stream''))
            (utc_clock rt (Suc (clock_reads w))) items) ''x-amz-meta-uploaded-at'' = Inr ua"
  shows "s3_calls (snd (upload_lambda_handler cfg rt s3 event w)) = s3_calls w @
     [GeneratePresignedPost (BUCKET_NAME cfg)
        (upload_object_key rt (utc_clock rt (clock_reads w)) (dict_get req ''filename'' JNull))
        (if KMS_KEY_ID cfg \<noteq> []
         then kms_fields cfg (upload_fields rt (dict_get req ''content_type'' (JStr ''application/octet-stream''))
            (utc_clock rt (Suc (clock_reads w))) items)
         else upload_fields rt (dict_get req ''content_type'' (JStr ''application/octet-stream''))
            (utc_clock rt (Suc (clock_reads w))) items)
        (if KMS_KEY_ID cfg \<noteq> []
         then kms_conditions cfg rt (upload_conditions cfg (dict_get req ''content_type'' (JStr ''application/octet-stream'')) ua)
         else upload_conditions cfg (dict_get req ''content_type'' (JStr ''application/octet-stream'')) ua)
        (EXPIRATION_TIME cfg)]"
  unfolding upload_lambda_handler_def upload_try_valid [OF assms]
  by (simp add: call_s3_def print_def split: sum.splits exn.splits)

lemma upload_handler_valid:
  assumes "request_body rt event = Inr (JDict req)"
    and "truthy (dict_get req ''filename'' JNull)"
    and "ALLOWED_CONTENT_TYPES cfg = [] \<or>
         in_allowed (dict_get req ''content_type'' (JStr ''application/octet-stream'')) (ALLOWED_CONTENT_TYPES cfg)"
    and "dict_get req ''metadata'' (JDict []) = JDict items"
    and "py_item rt (upload_fields rt (dict_get req ''content_type'' (JStr ''application/octet-stream''))
            (utc_clock rt (Suc (clock_reads w))) items) ''x-amz-meta-uploaded-at'' = Inr ua"
    and "generate_presigned_post s3 (BUCKET_NAME cfg)
        (upload_object_key rt (utc_clock rt (clock_reads w)) (dict_get req ''filename'' JNull))
        (if KMS_KEY_ID cfg \<noteq> []
         then kms_fields cfg (upload_fields rt (dict_get req ''content_type'' (JStr ''application/octet-stream''))
            (utc_clock rt (Suc (clock_reads w))) items)
         else upload_fields rt (dict_get req ''content_type'' (JStr ''application/octet-stream''))
            (utc_clock rt (Suc (clock_reads w))) items)
        (if KMS_KEY_ID cfg \<noteq> []
         then kms_conditions cfg rt (upload_conditions cfg (dict_get req ''content_type'' (JStr ''application/octet-stream'')) ua)
         else upload_conditions cfg (dict_get req ''content_type'' (JStr ''application/octet-stream'')) ua)
        (EXPIRATION_TIME cfg) = Inr presigned"
    and "true_divide rt (MAX_FILE_SIZE cfg) (1024 * 1024) = Inr max_file_size_mb"
  shows "fst (upload_lambda_handler cfg rt s3 event w) =
     success_response rt
       (JDict [(''upload_url'', JStr (post_url presigned)),
               (''fields'', JDict (post_fields presigned)),
               (''object_key'', JStr (upload_object_key rt (utc_clock rt (clock_reads w)) (dict_get req ''filename'' JNull))),
               (''expires_in'', JInt (EXPIRATION_TIME cfg)),
               (''max_file_size_mb'', JFloat max_file_size_mb)])"
  unfolding upload_lambda_handler_def upload_try_valid [OF assms(1-5)]
  using assms(6,7) by simp

text \<open>
  When the division of line 99 overflows, the POST has been presigned and the answer is
  the 500 envelope all the same.
\<close>

lemma upload_overflow_after_presigning:
  assumes "request_body rt event = Inr (JDict req)"
    and "truthy (dict_get req ''filename'' JNull)"
    and "ALLOWED_CONTENT_TYPES cfg = [] \<or>
         in_allowed (dict_get req ''content_type'' (JStr ''application/octet-stream'')) (ALLOWED_CONTENT_TYPES cfg)"
    and "dict_get req ''metadata'' (JDict []) = JDict items"
    and "py_item rt (upload_fields rt (dict_get req ''content_type'' (JStr ''application/octet-stream''))
            (utc_clock rt (Suc (clock_reads w))) items) ''x-amz-meta-uploaded-at'' = Inr ua"
    and "generate_presigned_post s3 (BUCKET_NAME cfg)
        (upload_object_key rt (utc_clock rt (clock_reads w)) (dict_get req ''filename'' JNull))
        (if KMS_KEY_ID cfg \<noteq> []
         then kms_fields cfg (upload_fields rt (dict_get req ''content_type'' (JStr ''application/octet-stream''))
            (utc_clock rt (Suc (clock_reads w))) items)
         else upload_fields rt (dict_get req ''content_type'' (JStr ''application/octet-stream''))
            (utc_clock rt (Suc (clock_reads w))) items)
        (if KMS_KEY_ID cfg \<noteq> []
         then kms_conditions cfg rt (upload_conditions cfg (dict_get req ''content_type'' (JStr ''application/octet-stream'')) ua)
         else upload_conditions cfg (dict_get req ''content_type'' (JStr ''application/octet-stream'')) ua)
        (EXPIRATION_TIME cfg) = Inr presigned"
    and "true_divide rt (MAX_FILE_SIZE cfg) (1024 * 1024) = Inl overflow"
  shows "fst (upload_lambda_handler cfg rt s3 event w) =
           error_response rt 500 (''Unexpected error: '' @ overflow)"
  unfolding upload_lambda_handler_def upload_try_valid [OF assms(1-5)]
  using assms(6,7) by simp

text \<open>
  Claim C6. For a request that passes validation (a JSON object with a non-empty string
  as file name and an allowed content type; its metadata, when given, a dictionary), the
  key handed to \<^verbatim>\<open>generate_presigned_post\<close> is \<^verbatim>\<open>uploads/YYYY/MM/DD/HHMMSS/<filename>\<close>: the
  date and time are the fields of the UTC clock reading the handler takes, zero-padded,
  and the file name is the request's, unchanged. Nothing of the request but the file name
  enters the key. When the presigning returns and the division of line 99 gives a float,
  the response has status 200 and its body is the encoding of the payload that holds the
  same key as \<^verbatim>\<open>object_key\<close>.
\<close>

theorem object_key_from_clock_and_filename:
  assumes "request_body rt event = Inr (JDict req)"
    and "dict_get req ''filename'' JNull = JStr filename"
    and "filename \<noteq> []"
    and "ALLOWED_CONTENT_TYPES cfg = [] \<or>
         in_allowed (dict_get req ''content_type'' (JStr ''application/octet-stream''))
           (ALLOWED_CONTENT_TYPES cfg)"
    and "dict_get req ''metadata'' (JDict []) = JDict items"
  shows
   "(let now = utc_clock rt (clock_reads w);
         object_key =
           ''uploads/'' @ zero_pad 4 (dt_year now) @ ''/'' @ zero_pad 2 (dt_month now) @ ''/'' @
           zero_pad 2 (dt_day now) @ ''/'' @
           zero_pad 2 (dt_hour now) @ zero_pad 2 (dt_minute now) @ zero_pad 2 (dt_second now) @
           ''/'' @ filename
     in \<exists>form_fields conditions.
          s3_calls (snd (upload_lambda_handler cfg rt s3 event w)) =
            s3_calls w @ [GeneratePresignedPost (BUCKET_NAME cfg) object_key form_fields conditions
                            (EXPIRATION_TIME cfg)] \<and>
          (\<forall>presigned max_file_size_mb.
             generate_presigned_post s3 (BUCKET_NAME cfg) object_key form_fields conditions
               (EXPIRATION_TIME cfg) = Inr presigned \<and>
             true_divide rt (MAX_FILE_SIZE cfg) (1024 * 1024) = Inr max_file_size_mb \<longrightarrow>
             statusCode (fst (upload_lambda_handler cfg rt s3 event w)) = 200 \<and>
             body (fst (upload_lambda_handler cfg rt s3 event w)) =
               json_dumps rt
                 (JDict [(''upload_url'', JStr (post_url presigned)),
                         (''fields'', JDict (post_fields presigned)),
                         (''object_key'', JStr object_key),
                         (''expires_in'', JInt (EXPIRATION_TIME cfg)),
                         (''max_file_size_mb'', JFloat max_file_size_mb)])))"
proof -
  obtain ua where ua:
    "py_item rt (upload_fields rt (dict_get req ''content_type'' (JStr ''application/octet-stream''))
        (utc_clock rt (Suc (clock_reads w))) items) ''x-amz-meta-uploaded-at'' = Inr ua"
    using upload_fields_tag_present by blast
  have name: "truthy (dict_get req ''filename'' JNull)"
    using assms(2,3) by simp
  have key: "upload_object_key rt (utc_clock rt (clock_reads w)) (dict_get req ''filename'' JNull) =
      ''uploads/'' @ zero_pad 4 (dt_year (utc_clock rt (clock_reads w))) @ ''/'' @
      zero_pad 2 (dt_month (utc_clock rt (clock_reads w))) @ ''/'' @
      zero_pad 2 (dt_day (utc_clock rt (clock_reads w))) @ ''/'' @
      zero_pad 2 (dt_hour (utc_clock rt (clock_reads w))) @
      zero_pad 2 (dt_minute (utc_clock rt (clock_reads w))) @
      zero_pad 2 (dt_second (utc_clock rt (clock_reads w))) @ ''/'' @ filename"
    by (simp add: upload_object_key_def strftime_key_def py_str_def assms(2))
  let ?ct = "dict_get req ''content_type'' (JStr ''application/octet-stream'')"
  let ?key = "upload_object_key rt (utc_clock rt (clock_reads w)) (dict_get req ''filename'' JNull)"
  let ?fields1 = "upload_fields rt ?ct (utc_clock rt (Suc (clock_reads w))) items"
  let ?fields = "if KMS_KEY_ID cfg \<noteq> [] then kms_fields cfg ?fields1 else ?fields1"
  let ?conds = "if KMS_KEY_ID cfg \<noteq> [] then kms_conditions cfg rt (upload_conditions cfg ?ct ua)
                else upload_conditions cfg ?ct ua"
  have calls: "s3_calls (snd (upload_lambda_handler cfg rt s3 event w)) =
      s3_calls w @ [GeneratePresignedPost (BUCKET_NAME cfg) ?key ?fields ?conds (EXPIRATION_TIME cfg)]"
    by (rule upload_handler_valid_calls [OF assms(1) name assms(4,5) ua])
  have resp: "statusCode (fst (upload_lambda_handler cfg rt s3 event w)) = 200 \<and>
      body (fst (upload_lambda_handler cfg rt s3 event w)) =
        json_dumps rt
          (JDict [(''upload_url'', JStr (post_url presigned)),
                  (''fields'', JDict (post_fields presigned)),
                  (''object_key'', JStr ?key),
                  (''expires_in'', JInt (EXPIRATION_TIME cfg)),
                  (''max_file_size_mb'', JFloat q)])"
    if "generate_presigned_post s3 (BUCKET_NAME cfg) ?key ?fields ?conds (EXPIRATION_TIME cfg) =
          Inr presigned"
      and "true_divide rt (MAX_FILE_SIZE cfg) (1024 * 1024) = Inr q" for presigned q
    unfolding upload_handler_valid [OF assms(1) name assms(4,5) ua that]
    by (simp add: success_response_def)
  show ?thesis
    unfolding Let_def key [symmetric]
    using calls resp by blast
qed

text \<open>Scenario A: \<^verbatim>\<open>doc.pdf\<close> of type \<^verbatim>\<open>application/pdf\<close>, no allow-list.\<close>

theorem object_key_from_clock_and_filename_witness:
  "\<exists>form_fields conditions.
     s3_calls (snd (upload_lambda_handler sample_config sample_runtime sample_s3
        [(''filename'', JStr ''doc.pdf''), (''content_type'', JStr ''application/pdf'')] world0)) =
       [GeneratePresignedPost ''fortress'' ''uploads/2024/02/13/120000/doc.pdf'' form_fields conditions 300] \<and>
     statusCode (fst (upload_lambda_handler sample_config sample_runtime sample_s3
        [(''filename'', JStr ''doc.pdf''), (''content_type'', JStr ''application/pdf'')] world0)) = 200 \<and>
     body (fst (upload_lambda_handler sample_config sample_runtime sample_s3
        [(''filename'', JStr ''doc.pdf''), (''content_type'', JStr ''application/pdf'')] world0)) =
       json_dumps sample_runtime
         (JDict [(''upload_url'', JStr ''https://fortress.s3.amazonaws.com/''),
                 (''fields'', JDict form_fields),
                 (''object_key'', JStr ''uploads/2024/02/13/120000/doc.pdf''),
                 (''expires_in'', JInt 300),
                 (''max_file_size_mb'', JFloat 10)])"
  using object_key_from_clock_and_filename [where rt = sample_runtime
      and event = "[(''filename'', JStr ''doc.pdf''), (''content_type'', JStr ''application/pdf'')]"
      and req = "[(''filename'', JStr ''doc.pdf''), (''content_type'', JStr ''application/pdf'')]"
      and filename = "''doc.pdf''" and cfg = sample_config and items = "[]"
      and ?s3.0 = sample_s3 and w = world0]
  by (simp add: request_body_def dict_get_def sample_config_sel world0_sel sample_runtime_sel(4,5,6)
        sample_presigned_post sample_true_divide_def sample_clock_def Let_def eval_text)

text \<open>
  Claim C7, as the specification states it, fails: the handler reads the clock a second
  time for the tag (line 59) after reading it for the key (line 53). On the sample clock,
  which reads 12:00:00.999999 and then 12:00:01, the key is built from the first reading
  and the tag is the ISO-8601 text of the second, not of the first.
\<close>

theorem upload_tag_other_instant_counterexample:
  "s3_calls (snd (upload_lambda_handler sample_config sample_runtime sample_s3
      [(''filename'', JStr ''doc.pdf''), (''content_type'', JStr ''application/pdf'')] world0)) =
     [GeneratePresignedPost ''fortress'' ''uploads/2024/02/13/120000/doc.pdf''
        [(''Content-Type'', JStr ''application/pdf''),
         (''x-amz-meta-uploaded-at'', JStr ''2024-02-13T12:00:01'')]
        [JDict [(''Content-Type'', JStr ''application/pdf'')],
         JList [JStr ''content-length-range'', JInt 1, JInt 10485760],
         JDict [(''x-amz-meta-uploaded-at'', JStr ''2024-02-13T12:00:01'')]]
        300] \<and>
   strftime_key (utc_clock sample_runtime (clock_reads world0)) = ''2024/02/13/120000'' \<and>
   isoformat (utc_clock sample_runtime (clock_reads world0)) = ''2024-02-13T12:00:00.999999''"
proof -
  let ?event = "[(''filename'', JStr ''doc.pdf''), (''content_type'', JStr ''application/pdf'')]"
  have body: "request_body sample_runtime ?event = Inr (JDict ?event)"
    by (simp add: request_body_def)
  have form: "upload_fields sample_runtime (JStr ''application/pdf'') (sample_clock (Suc 0)) [] =
     [(''Content-Type'', JStr ''application/pdf''),
      (''x-amz-meta-uploaded-at'', JStr ''2024-02-13T12:00:01'')]"
    by (simp add: upload_fields_def sample_iso1)
  have key: "upload_object_key sample_runtime (sample_clock 0) (JStr ''doc.pdf'') =
      ''uploads/2024/02/13/120000/doc.pdf''"
    by (simp add: upload_object_key_def sample_key0 py_str_def)
  have "s3_calls (snd (upload_lambda_handler sample_config sample_runtime sample_s3 ?event world0)) =
     [GeneratePresignedPost ''fortress'' ''uploads/2024/02/13/120000/doc.pdf''
        [(''Content-Type'', JStr ''application/pdf''),
         (''x-amz-meta-uploaded-at'', JStr ''2024-02-13T12:00:01'')]
        [JDict [(''Content-Type'', JStr ''application/pdf'')],
         JList [JStr ''content-length-range'', JInt 1, JInt 10485760],
         JDict [(''x-amz-meta-uploaded-at'', JStr ''2024-02-13T12:00:01'')]]
        300]"
    using upload_handler_valid_calls [of sample_runtime ?event ?event sample_config "[]" world0
        "JStr ''2024-02-13T12:00:01''" sample_s3]
    by (simp add: body dict_get_def form key py_item_def upload_conditions_def sample_sel)
  then show ?thesis
    by (simp add: sample_sel sample_key0 sample_iso0)
qed

text \<open>
  Claim C7, amended. For a request that passes validation and whose metadata is a
  dictionary without the key \<^verbatim>\<open>uploaded-at\<close>, the field \<^verbatim>\<open>x-amz-meta-uploaded-at\<close> handed to
  \<^verbatim>\<open>generate_presigned_post\<close> is the ISO-8601 text of the clock reading the handler takes
  next after the one from which it builds the key.
\<close>

theorem upload_tag_is_next_clock_reading:
  assumes "request_body rt event = Inr (JDict req)"
    and "truthy (dict_get req ''filename'' JNull)"
    and "ALLOWED_CONTENT_TYPES cfg = [] \<or>
         in_allowed (dict_get req ''content_type'' (JStr ''application/octet-stream''))
           (ALLOWED_CONTENT_TYPES cfg)"
    and "dict_get req ''metadata'' (JDict []) = JDict items"
    and "''uploaded-at'' \<notin> fst ` set items"
  shows
   "\<exists>object_key form_fields conditions.
      s3_calls (snd (upload_lambda_handler cfg rt s3 event w)) =
        s3_calls w @ [GeneratePresignedPost (BUCKET_NAME cfg) object_key form_fields conditions
                        (EXPIRATION_TIME cfg)] \<and>
      object_key = upload_object_key rt (utc_clock rt (clock_reads w)) (dict_get req ''filename'' JNull) \<and>
      map_of form_fields ''x-amz-meta-uploaded-at'' =
        Some (JStr (isoformat (utc_clock rt (Suc (clock_reads w)))))"
proof -
  let ?ct = "dict_get req ''content_type'' (JStr ''application/octet-stream'')"
  let ?now2 = "utc_clock rt (Suc (clock_reads w))"
  let ?fields1 = "upload_fields rt ?ct ?now2 items"
  let ?fields = "if KMS_KEY_ID cfg \<noteq> [] then kms_fields cfg ?fields1 else ?fields1"
  have fresh: "''x-amz-meta-uploaded-at'' \<notin> (\<lambda>key. ''x-amz-meta-'' @ key) ` fst ` set items"
    using assms(5) by auto
  have tag1: "map_of ?fields1 ''x-amz-meta-uploaded-at'' = Some (JStr (isoformat ?now2))"
    unfolding upload_fields_def fold_update_other [OF fresh] by simp
  then have ua: "py_item rt ?fields1 ''x-amz-meta-uploaded-at'' = Inr (JStr (isoformat ?now2))"
    by (simp add: py_item_def)
  have tag: "map_of ?fields ''x-amz-meta-uploaded-at'' = Some (JStr (isoformat ?now2))"
    using tag1 by (simp add: kms_fields_def update_conv')
  show ?thesis
    using upload_handler_valid_calls [OF assms(1-4) ua, of s3] tag by blast
qed

text \<open>The request of the module's docstring: a PDF with one metadata entry.\<close>

theorem upload_tag_is_next_clock_reading_witness:
  "\<exists>object_key form_fields conditions.
      s3_calls (snd (upload_lambda_handler sample_config sample_runtime sample_s3
        [(''filename'', JStr ''document.pdf''), (''content_type'', JStr ''application/pdf''),
         (''metadata'', JDict [(''user_id'', JStr ''123'')])] world0)) =
        [GeneratePresignedPost ''fortress'' object_key form_fields conditions 300] \<and>
      object_key = ''uploads/2024/02/13/120000/document.pdf'' \<and>
      map_of form_fields ''x-amz-meta-uploaded-at'' = Some (JStr ''2024-02-13T12:00:01'')"
  using upload_tag_is_next_clock_reading [where rt = sample_runtime
      and event = "[(''filename'', JStr ''document.pdf''), (''content_type'', JStr ''application/pdf''),
                    (''metadata'', JDict [(''user_id'', JStr ''123'')])]"
      and req = "[(''filename'', JStr ''document.pdf''), (''content_type'', JStr ''application/pdf''),
                  (''metadata'', JDict [(''user_id'', JStr ''123'')])]"
      and cfg = sample_config and items = "[(''user_id'', JStr ''123'')]"
      and ?s3.0 = sample_s3 and w = world0]
  by (simp add: request_body_def dict_get_def sample_sel sample_iso1 sample_key0
        upload_object_key_def py_str_def)

section \<open>Fields and conditions of the upload policy\<close>

text \<open>
  The two conditions appended by lines 82 and 83 both mention the name line 79 searches
  for, so running the encryption step again on its own result removes them and appends
  them again: the step does not duplicate them.
\<close>

lemma sse_condition_mentions:
  "str_contains ''x-amz-server-side-encryption''
     (py_str fr ur (JDict [(''x-amz-server-side-encryption'', v)]))"
  by (simp add: py_str_def repr_str_def repr_char_def squote_def dquote_def backslash_def is_ascii_def)

lemma sse_key_condition_mentions:
  "str_contains ''x-amz-server-side-encryption''
     (py_str fr ur (JDict [(''x-amz-server-side-encryption-aws-kms-key-id'', v)]))"
  by (simp add: py_str_def repr_str_def repr_char_def squote_def dquote_def backslash_def is_ascii_def)

lemma kms_conditions_idempotent:
  "kms_conditions cfg rt (kms_conditions cfg rt conditions) = kms_conditions cfg rt conditions"
  by (simp add: kms_conditions_def sse_condition_mentions sse_key_condition_mentions)

text \<open>
  Claim C1 does not hold of the code. With a KMS key configured, line 79 drops every
  condition whose \<^verbatim>\<open>str\<close> contains \<^verbatim>\<open>x-amz-server-side-encryption\<close>, and that text is searched
  in the values too. A request whose content type contains it (no allow-list configured)
  is authorized with status 200, and the conditions handed to \<^verbatim>\<open>generate_presigned_post\<close>
  are the size range, the timestamp and the two encryption conditions: the content-type
  condition is gone, while the \<^verbatim>\<open>Content-Type\<close> field is still required.
\<close>

theorem kms_filter_drops_content_type_condition:
  "statusCode (fst (upload_lambda_handler kms_config sample_runtime sample_s3
      [(''filename'', JStr ''a''), (''content_type'', JStr ''x-amz-server-side-encryption'')] world0)) = 200 \<and>
   s3_calls (snd (upload_lambda_handler kms_config sample_runtime sample_s3
      [(''filename'', JStr ''a''), (''content_type'', JStr ''x-amz-server-side-encryption'')] world0)) =
   [GeneratePresignedPost ''fortress'' ''uploads/2024/02/13/120000/a''
      [(''Content-Type'', JStr ''x-amz-server-side-encryption''),
       (''x-amz-meta-uploaded-at'', JStr ''2024-02-13T12:00:01''),
       (''x-amz-server-side-encryption'', JStr ''aws:kms''),
       (''x-amz-server-side-encryption-aws-kms-key-id'', JStr ''key-1'')]
      [JList [JStr ''content-length-range'', JInt 1, JInt 10485760],
       JDict [(''x-amz-meta-uploaded-at'', JStr ''2024-02-13T12:00:01'')],
       JDict [(''x-amz-server-side-encryption'', JStr ''aws:kms'')],
       JDict [(''x-amz-server-side-encryption-aws-kms-key-id'', JStr ''key-1'')]]
      300]"
proof -
  let ?event = "[(''filename'', JStr ''a''), (''content_type'', JStr ''x-amz-server-side-encryption'')]"
  have body: "request_body sample_runtime ?event = Inr (JDict ?event)"
    by (simp add: request_body_def)
  have form: "upload_fields sample_runtime (JStr ''x-amz-server-side-encryption'') (sample_clock (Suc 0)) [] =
     [(''Content-Type'', JStr ''x-amz-server-side-encryption''),
      (''x-amz-meta-uploaded-at'', JStr ''2024-02-13T12:00:01'')]"
    by (simp add: upload_fields_def sample_iso1)
  have key: "upload_object_key sample_runtime (sample_clock 0) (JStr ''a'') = ''uploads/2024/02/13/120000/a''"
    by (simp add: upload_object_key_def sample_key0 py_str_def)
  have conds: "kms_conditions kms_config sample_runtime
      (upload_conditions kms_config (JStr ''x-amz-server-side-encryption'') (JStr ''2024-02-13T12:00:01'')) =
      [JList [JStr ''content-length-range'', JInt 1, JInt 10485760],
       JDict [(''x-amz-meta-uploaded-at'', JStr ''2024-02-13T12:00:01'')],
       JDict [(''x-amz-server-side-encryption'', JStr ''aws:kms'')],
       JDict [(''x-amz-server-side-encryption-aws-kms-key-id'', JStr ''key-1'')]]"
    by (simp add: kms_conditions_def upload_conditions_def py_str_def repr_str_def repr_char_def
          squote_def dquote_def backslash_def is_ascii_def sample_sel eval_text)
  have calls: "s3_calls (snd (upload_lambda_handler kms_config sample_runtime sample_s3 ?event world0)) =
   [GeneratePresignedPost ''fortress'' ''uploads/2024/02/13/120000/a''
      [(''Content-Type'', JStr ''x-amz-server-side-encryption''),
       (''x-amz-meta-uploaded-at'', JStr ''2024-02-13T12:00:01''),
       (''x-amz-server-side-encryption'', JStr ''aws:kms''),
       (''x-amz-server-side-encryption-aws-kms-key-id'', JStr ''key-1'')]
      [JList [JStr ''content-length-range'', JInt 1, JInt 10485760],
       JDict [(''x-amz-meta-uploaded-at'', JStr ''2024-02-13T12:00:01'')],
       JDict [(''x-amz-server-side-encryption'', JStr ''aws:kms'')],
       JDict [(''x-amz-server-side-encryption-aws-kms-key-id'', JStr ''key-1'')]]
      300]"
    using upload_handler_valid_calls [of sample_runtime ?event ?event kms_config "[]" world0
        "JStr ''2024-02-13T12:00:01''" sample_s3]
    by (simp add: body dict_get_def form key conds py_item_def kms_fields_def sample_sel)
  have "statusCode (fst (upload_lambda_handler kms_config sample_runtime sample_s3 ?event world0)) = 200"
    using upload_handler_valid [of sample_runtime ?event ?event kms_config "[]" world0
        "JStr ''2024-02-13T12:00:01''" sample_s3]
    by (simp add: body dict_get_def form py_item_def sample_sel sample_presigned_post
          sample_true_divide_def success_response_def)
  with calls show ?thesis by simp
qed

text \<open>
  Claim C2 does not hold of the code. Lines 63 and 64 add one field for every metadata
  entry, and no line adds a condition for it. The request of the module's docstring, with
  the metadata \<^verbatim>\<open>{"user_id": "123"}\<close>, is authorized with status 200; the fields handed to
  \<^verbatim>\<open>generate_presigned_post\<close> hold \<^verbatim>\<open>x-amz-meta-user_id\<close>, and the conditions are the
  content type, the size range and the timestamp only.
\<close>

theorem metadata_field_has_no_condition:
  "statusCode (fst (upload_lambda_handler sample_config sample_runtime sample_s3
      [(''filename'', JStr ''document.pdf''), (''content_type'', JStr ''application/pdf''),
       (''metadata'', JDict [(''user_id'', JStr ''123'')])] world0)) = 200 \<and>
   s3_calls (snd (upload_lambda_handler sample_config sample_runtime sample_s3
      [(''filename'', JStr ''document.pdf''), (''content_type'', JStr ''application/pdf''),
       (''metadata'', JDict [(''user_id'', JStr ''123'')])] world0)) =
   [GeneratePresignedPost ''fortress'' ''uploads/2024/02/13/120000/document.pdf''
      [(''Content-Type'', JStr ''application/pdf''),
       (''x-amz-meta-uploaded-at'', JStr ''2024-02-13T12:00:01''),
       (''x-amz-meta-user_id'', JStr ''123'')]
      [JDict [(''Content-Type'', JStr ''application/pdf'')],
       JList [JStr ''content-length-range'', JInt 1, JInt 10485760],
       JDict [(''x-amz-meta-uploaded-at'', JStr ''2024-02-13T12:00:01'')]]
      300]"
proof -
  let ?event = "[(''filename'', JStr ''document.pdf''), (''content_type'', JStr ''application/pdf''),
                 (''metadata'', JDict [(''user_id'', JStr ''123'')])]"
  have body: "request_body sample_runtime ?event = Inr (JDict ?event)"
    by (simp add: request_body_def)
  have form: "upload_fields sample_runtime (JStr ''application/pdf'') (sample_clock (Suc 0))
       [(''user_id'', JStr ''123'')] =
     [(''Content-Type'', JStr ''application/pdf''),
      (''x-amz-meta-uploaded-at'', JStr ''2024-02-13T12:00:01''),
      (''x-amz-meta-user_id'', JStr ''123'')]"
    by (simp add: upload_fields_def sample_iso1 py_str_def)
  have key: "upload_object_key sample_runtime (sample_clock 0) (JStr ''document.pdf'') =
      ''uploads/2024/02/13/120000/document.pdf''"
    by (simp add: upload_object_key_def sample_key0 py_str_def)
  have calls: "s3_calls (snd (upload_lambda_handler sample_config sample_runtime sample_s3 ?event world0)) =
   [GeneratePresignedPost ''fortress'' ''uploads/2024/02/13/120000/document.pdf''
      [(''Content-Type'', JStr ''application/pdf''),
       (''x-amz-meta-uploaded-at'', JStr ''2024-02-13T12:00:01''),
       (''x-amz-meta-user_id'', JStr ''123'')]
      [JDict [(''Content-Type'', JStr ''application/pdf'')],
       JList [JStr ''content-length-range'', JInt 1, JInt 10485760],
       JDict [(''x-amz-meta-uploaded-at'', JStr ''2024-02-13T12:00:01'')]]
      300]"
    using upload_handler_valid_calls [of sample_runtime ?event ?event sample_config
        "[(''user_id'', JStr ''123'')]" world0 "JStr ''2024-02-13T12:00:01''" sample_s3]
    by (simp add: body dict_get_def form key py_item_def upload_conditions_def sample_sel)
  have "statusCode (fst (upload_lambda_handler sample_config sample_runtime sample_s3 ?event world0)) = 200"
    using upload_handler_valid [of sample_runtime ?event ?event sample_config "[(''user_id'', JStr ''123'')]" world0
        "JStr ''2024-02-13T12:00:01''" sample_s3]
    by (simp add: body dict_get_def form py_item_def sample_sel sample_presigned_post
          sample_true_divide_def success_response_def)
  with calls show ?thesis by simp
qed

section \<open>Headers of the envelopes\<close>

text \<open>
  Every response of a handler is built by \<^verbatim>\<open>success_response\<close> or by \<^verbatim>\<open>error_response\<close>
  with status 400, 404 or 500.
\<close>

lemma upload_try_shape:
  "upload_try cfg rt s3 event w = (Inr r, w') \<Longrightarrow>
   (\<exists>d. r = success_response rt d) \<or> (\<exists>m. r = error_response rt 400 m)"
  unfolding upload_try_def
  by (auto simp: Let_def utcnow_def split: sum.splits if_splits prod.splits)

lemma download_try_shape:
  "download_try cfg rt s3 event w = (Inr r, w') \<Longrightarrow>
   (\<exists>d. r = success_response rt d) \<or> (\<exists>m. r = error_response rt 400 m) \<or> (\<exists>m. r = error_response rt 404 m)"
  unfolding download_try_def
  by (auto simp: Let_def split: sum.splits if_splits prod.splits exn.splits)

lemma upload_handler_shape:
  "(\<exists>d. fst (upload_lambda_handler cfg rt s3 event w) = success_response rt d) \<or>
   (\<exists>c m. fst (upload_lambda_handler cfg rt s3 event w) = error_response rt c m \<and> c \<in> {400, 404, 500})"
proof (cases "upload_try cfg rt s3 event w")
  case (Pair res w')
  show ?thesis
  proof (cases res)
    case (Inl e)
    with Pair show ?thesis
      by (cases e) (auto simp: upload_lambda_handler_def)
  next
    case (Inr r)
    with Pair upload_try_shape [of cfg rt s3 event w r w'] show ?thesis
      by (auto simp: upload_lambda_handler_def)
  qed
qed

lemma download_handler_shape:
  "(\<exists>d. fst (download_lambda_handler cfg rt s3 event w) = success_response rt d) \<or>
   (\<exists>c m. fst (download_lambda_handler cfg rt s3 event w) = error_response rt c m \<and> c \<in> {400, 404, 500})"
proof (cases "download_try cfg rt s3 event w")
  case (Pair res w')
  show ?thesis
  proof (cases res)
    case (Inl e)
    with Pair show ?thesis
      by (cases e) (auto simp: download_lambda_handler_def)
  next
    case (Inr r)
    with Pair download_try_shape [of cfg rt s3 event w r w'] show ?thesis
      by (auto simp: download_lambda_handler_def)
  qed
qed

text \<open>
  Claim C8, as the specification states it, fails: \<^verbatim>\<open>error_response\<close> sets only
  \<^verbatim>\<open>Content-Type\<close> and \<^verbatim>\<open>Access-Control-Allow-Origin\<close>. The 400 envelope for an upload request
  without a file name has neither \<^verbatim>\<open>Access-Control-Allow-Methods\<close> nor
  \<^verbatim>\<open>Access-Control-Allow-Headers\<close>.
\<close>

theorem error_envelope_headers_counterexample:
  "statusCode (fst (upload_lambda_handler sample_config sample_runtime sample_s3 [] world0)) = 400 \<and>
   map_of (headers (fst (upload_lambda_handler sample_config sample_runtime sample_s3 [] world0)))
     ''Access-Control-Allow-Methods'' = None \<and>
   map_of (headers (fst (upload_lambda_handler sample_config sample_runtime sample_s3 [] world0)))
     ''Access-Control-Allow-Headers'' = None"
  by (simp add: upload_lambda_handler_def upload_try_def request_body_def dict_get_def
        error_response_def)

text \<open>
  Claim C8, amended. Every response of either handler has status 200, 400, 404 or 500 and
  carries \<^verbatim>\<open>Content-Type: application/json\<close> and \<^verbatim>\<open>Access-Control-Allow-Origin: *\<close>. The entries
  \<^verbatim>\<open>Access-Control-Allow-Methods: POST\<close> and \<^verbatim>\<open>Access-Control-Allow-Headers: Content-Type\<close> are
  present in the success envelope (status 200) and absent from every error envelope.
\<close>

theorem envelope_headers:
  "(let r = fst (upload_lambda_handler cfg rt s3 event w) in
      statusCode r \<in> {200, 400, 404, 500} \<and>
      map_of (headers r) ''Content-Type'' = Some ''application/json'' \<and>
      map_of (headers r) ''Access-Control-Allow-Origin'' = Some ''*'' \<and>
      map_of (headers r) ''Access-Control-Allow-Methods'' =
        (if statusCode r = 200 then Some ''POST'' else None) \<and>
      map_of (headers r) ''Access-Control-Allow-Headers'' =
        (if statusCode r = 200 then Some ''Content-Type'' else None)) \<and>
   (let r = fst (download_lambda_handler cfg rt s3 event w) in
      statusCode r \<in> {200, 400, 404, 500} \<and>
      map_of (headers r) ''Content-Type'' = Some ''application/json'' \<and>
      map_of (headers r) ''Access-Control-Allow-Origin'' = Some ''*'' \<and>
      map_of (headers r) ''Access-Control-Allow-Methods'' =
        (if statusCode r = 200 then Some ''POST'' else None) \<and>
      map_of (headers r) ''Access-Control-Allow-Headers'' =
        (if statusCode r = 200 then Some ''Content-Type'' else None))"
proof -
  have shape: "statusCode r \<in> {200, 400, 404, 500} \<and>
      map_of (headers r) ''Content-Type'' = Some ''application/json'' \<and>
      map_of (headers r) ''Access-Control-Allow-Origin'' = Some ''*'' \<and>
      map_of (headers r) ''Access-Control-Allow-Methods'' =
        (if statusCode r = 200 then Some ''POST'' else None) \<and>
      map_of (headers r) ''Access-Control-Allow-Headers'' =
        (if statusCode r = 200 then Some ''Content-Type'' else None)"
    if "(\<exists>d. r = success_response rt d) \<or>
        (\<exists>c m. r = error_response rt c m \<and> c \<in> {400, 404, 500})" for r
    using that by (auto simp: success_response_def error_response_def)
  show ?thesis
    unfolding Let_def
    using shape [OF upload_handler_shape [of cfg rt s3 event w]]
      shape [OF download_handler_shape [of cfg rt s3 event w]]
    by blast
qed

text \<open>Scenario D answers 200 with the four headers; a request with no key answers 400 with two.\<close>

theorem envelope_headers_witness:
  "headers (fst (download_lambda_handler sample_config sample_runtime sample_s3
       [(''object_key'', JStr ''k'')] world0)) =
     [(''Content-Type'', ''application/json''), (''Access-Control-Allow-Origin'', ''*''),
      (''Access-Control-Allow-Headers'', ''Content-Type''), (''Access-Control-Allow-Methods'', ''POST'')] \<and>
   map_of (headers (fst (download_lambda_handler sample_config sample_runtime sample_s3
       [(''object_key'', JStr ''k'')] world0))) ''Access-Control-Allow-Origin'' = Some ''*'' \<and>
   map_of (headers (fst (upload_lambda_handler sample_config sample_runtime sample_s3
       [(''object_key'', JStr ''k'')] world0))) ''Access-Control-Allow-Origin'' = Some ''*''"
proof -
  have "headers (fst (download_lambda_handler sample_config sample_runtime sample_s3
       [(''object_key'', JStr ''k'')] world0)) =
     [(''Content-Type'', ''application/json''), (''Access-Control-Allow-Origin'', ''*''),
      (''Access-Control-Allow-Headers'', ''Content-Type''), (''Access-Control-Allow-Methods'', ''POST'')]"
    by (simp add: download_lambda_handler_def download_try_def request_body_def dict_get_def
          sample_s3_def success_response_def)
  then show ?thesis
    using envelope_headers [of sample_config sample_runtime sample_s3
        "[(''object_key'', JStr ''k'')]" world0]
    by (simp add: Let_def)
qed

end
